theory Spec2Isabelle
  imports Main
begin

section \<open>Values exchanged with the outside world\<close>

text \<open>
  The client of \<open>onedrive_api.py\<close> talks to two HTTP services through the \<open>requests\<close>
  library and reads the clock through \<open>datetime.utcnow()\<close>. Decoded JSON bodies are
  Python values; they are modelled by the datatype below. \<open>JNull\<close> is Python's \<open>None\<close>,
  \<open>JNum\<close> is a Python \<open>int\<close> (JSON numbers with a fractional part are outside the
  model), a \<open>JObj\<close> is a \<open>dict\<close> given by its items, looked up with \<open>map_of\<close>.
\<close>

datatype json =
    JNull
  | JBool bool
  | JNum int
  | JStr string
  | JArr "json list"
  | JObj "(string \<times> json) list"

text \<open>
  A \<open>requests.Response\<close>: the status code, the raw body (\<open>response.content\<close>) and the
  outcome of \<open>response.json()\<close>, which is \<open>None\<close> when the body is not valid JSON.
\<close>

record response =
  status_code :: int
  content :: string
  json_of :: "json option"

text \<open>
  The exceptions that the modelled code can raise. \<open>HTTPError\<close> is raised by
  \<open>raise_for_status\<close> and carries the response; \<open>ConnectionError\<close> stands for the
  transport failures of \<open>requests\<close>.
\<close>

datatype error =
    HTTPError response
  | JSONDecodeError
  | KeyError string
  | TypeError
  | AttributeError
  | OverflowError
  | ConnectionError

text \<open>What \<open>requests.request(http_method, url, headers=..., **kwargs)\<close> is called with.\<close>

record http_request =
  http_method :: string
  url :: string
  headers :: "string \<rightharpoonup> string"
  kwargs :: "string \<rightharpoonup> json"

text \<open>What \<open>requests.post(url, data=...)\<close> is called with.\<close>

record post_request =
  post_url :: string
  post_data :: "string \<rightharpoonup> string"

text \<open>
  The environment of one run. \<open>utcnow k\<close> is the value of the \<open>k\<close>-th call of
  \<open>datetime.utcnow()\<close>, as a number of microseconds since 1970-01-01 00:00:00;
  \<open>post k\<close> is the outcome of the \<open>k\<close>-th call of \<open>requests.post\<close> (the identity
  provider) and \<open>request k\<close> the outcome of the \<open>k\<close>-th call of \<open>requests.request\<close>
  (the target API), either an exception or a response, counting from 0; \<open>repr\<close> is
  Python's \<open>repr\<close>, used by \<open>py_str\<close> below.
\<close>

record env =
  utcnow :: "nat \<Rightarrow> int"
  post :: "nat \<Rightarrow> error + response"
  request :: "nat \<Rightarrow> error + response"
  repr :: "json \<Rightarrow> string"

section \<open>The client object and the state of a run\<close>

text \<open>
  The fields of \<open>OneDriveClient\<close>. A leading underscore of the source is written \<open>u_\<close>;
  \<open>u_access_token\<close> holds \<open>JNull\<close> for \<open>None\<close>, \<open>u_token_expiry\<close> a \<open>datetime\<close> in
  microseconds or \<open>None\<close>.
\<close>

record client =
  tenant_id :: string
  client_id :: string
  client_secret :: string
  user_email :: string
  u_access_token :: json
  u_token_expiry :: "int option"

text \<open>
  The state threaded through every method: the object \<open>self\<close>, the number of clock
  reads so far and the calls made to the two services so far, oldest first.
\<close>

record state =
  self :: client
  clock_reads :: nat
  post_log :: "post_request list"
  request_log :: "http_request list"

definition GRAPH_URL :: string where
  "GRAPH_URL = ''https://graph.microsoft.com/v1.0''"

text \<open>\<open>TOKEN_URL.format(tenant=t)\<close>\<close>

definition TOKEN_URL :: "string \<Rightarrow> string" where
  "TOKEN_URL t = ''https://login.microsoftonline.com/'' @ t @ ''/oauth2/v2.0/token''"

text \<open>\<open>__init__\<close>\<close>

definition init :: "string \<Rightarrow> string \<Rightarrow> string \<Rightarrow> string \<Rightarrow> client" where
  "init tenant cid secret email =
     \<lparr>tenant_id = tenant, client_id = cid, client_secret = secret, user_email = email,
      u_access_token = JNull, u_token_expiry = None\<rparr>"

section \<open>Python and library primitives\<close>

text \<open>Truth value of a decoded JSON value, as tested by \<open>not x\<close>.\<close>

fun truthy :: "json \<Rightarrow> bool" where
  "truthy JNull = False"
| "truthy (JBool b) = b"
| "truthy (JNum n) = (n \<noteq> 0)"
| "truthy (JStr s) = (s \<noteq> [])"
| "truthy (JArr xs) = (xs \<noteq> [])"
| "truthy (JObj kvs) = (kvs \<noteq> [])"

text \<open>
  \<open>str(x)\<close>, as used by an f-string replacement field. On integers, lists and dicts it
  is \<open>repr(x)\<close>, which is taken from the environment.
\<close>

fun py_str :: "env \<Rightarrow> json \<Rightarrow> string" where
  "py_str e (JStr s) = s"
| "py_str e JNull = ''None''"
| "py_str e (JBool b) = (if b then ''True'' else ''False'')"
| "py_str e v = repr e v"

text \<open>\<open>timedelta(minutes=n)\<close> for an integer \<open>n\<close>, in microseconds.\<close>

definition timedelta_minutes :: "int \<Rightarrow> int" where
  "timedelta_minutes n = n * 60000000"

text \<open>
  The integer that Python arithmetic sees in a decoded JSON value: an \<open>int\<close> is
  itself, and \<open>bool\<close> is a subclass of \<open>int\<close> with \<open>True == 1\<close> and \<open>False == 0\<close>.
\<close>

fun int_value :: "json \<Rightarrow> int option" where
  "int_value (JNum n) = Some n"
| "int_value (JBool b) = Some (if b then 1 else 0)"
| "int_value v = None"

text \<open>
  \<open>timedelta(seconds=v)\<close> for a decoded JSON value, in microseconds. A value that is
  no number raises \<open>TypeError\<close>; a number of seconds whose whole days are beyond
  999999999 in magnitude raises \<open>OverflowError\<close>.
\<close>

definition timedelta_seconds :: "json \<Rightarrow> error + int" where
  "timedelta_seconds v =
     (case int_value v of
        None \<Rightarrow> Inl TypeError
      | Some n \<Rightarrow>
          if - 999999999 \<le> n div 86400 \<and> n div 86400 \<le> 999999999 then Inr (n * 1000000)
          else Inl OverflowError)"

text \<open>
  \<open>datetime.min\<close> (0001-01-01 00:00:00) and \<open>datetime.max\<close> (9999-12-31
  23:59:59.999999) in microseconds since 1970-01-01, and \<open>t + d\<close> for a \<open>datetime\<close>
  and a \<open>timedelta\<close>, which raises \<open>OverflowError\<close> when the sum is outside them.
\<close>

definition datetime_min :: int where
  "datetime_min = - 62135596800000000"

definition datetime_max :: int where
  "datetime_max = 253402300799999999"

definition datetime_add :: "int \<Rightarrow> int \<Rightarrow> error + int" where
  "datetime_add t d =
     (if datetime_min \<le> t + d \<and> t + d \<le> datetime_max then Inr (t + d)
      else Inl OverflowError)"

text \<open>\<open>d[k]\<close>: a missing key raises \<open>KeyError\<close>, a value that is no dict \<open>TypeError\<close>.\<close>

fun getitem :: "json \<Rightarrow> string \<Rightarrow> error + json" where
  "getitem (JObj kvs) k = (case map_of kvs k of None \<Rightarrow> Inl (KeyError k) | Some v \<Rightarrow> Inr v)"
| "getitem v k = Inl TypeError"

text \<open>\<open>d.get(k, default)\<close>: a value that is no dict has no \<open>get\<close>.\<close>

fun dict_get :: "json \<Rightarrow> string \<Rightarrow> json \<Rightarrow> error + json" where
  "dict_get (JObj kvs) k d = Inr (case map_of kvs k of None \<Rightarrow> d | Some v \<Rightarrow> v)"
| "dict_get v k d = Inl AttributeError"

text \<open>\<open>response.json()\<close>\<close>

definition response_json :: "response \<Rightarrow> error + json" where
  "response_json r = (case json_of r of None \<Rightarrow> Inl JSONDecodeError | Some v \<Rightarrow> Inr v)"

text \<open>
  \<open>response.raise_for_status()\<close> of \<open>requests\<close>: an \<open>HTTPError\<close> for the client errors
  400..499 and the server errors 500..599, nothing for any other status.
\<close>

definition raise_for_status :: "response \<Rightarrow> error + unit" where
  "raise_for_status r =
     (if 400 \<le> status_code r \<and> status_code r < 600 then Inl (HTTPError r) else Inr ())"

text \<open>\<open>datetime.utcnow()\<close>\<close>

definition datetime_utcnow :: "env \<Rightarrow> state \<Rightarrow> int \<times> state" where
  "datetime_utcnow e st =
     (utcnow e (clock_reads st), st\<lparr>clock_reads := Suc (clock_reads st)\<rparr>)"

text \<open>\<open>requests.post(url, data=data)\<close>\<close>

definition requests_post :: "env \<Rightarrow> post_request \<Rightarrow> state \<Rightarrow> (error + response) \<times> state" where
  "requests_post e p st =
     (post e (length (post_log st)), st\<lparr>post_log := post_log st @ [p]\<rparr>)"

text \<open>\<open>requests.request(http_method, url, headers=headers, **kwargs)\<close>\<close>

definition requests_request :: "env \<Rightarrow> http_request \<Rightarrow> state \<Rightarrow> (error + response) \<times> state" where
  "requests_request e r st =
     (request e (length (request_log st)), st\<lparr>request_log := request_log st @ [r]\<rparr>)"

text \<open>
  \<open>requests.utils.quote(s)\<close>, which is \<open>urllib.parse.quote\<close> with its default
  \<open>safe='/'\<close>, on the UTF-8 bytes of \<open>s\<close>: letters, digits and \<open>_.-~/\<close> are kept, every
  other byte becomes \<open>%XX\<close> with upper-case hexadecimal digits.
\<close>

definition always_safe :: "char \<Rightarrow> bool" where
  "always_safe c =
     (let n = (of_char c :: nat) in
      (65 \<le> n \<and> n \<le> 90) \<or> (97 \<le> n \<and> n \<le> 122) \<or> (48 \<le> n \<and> n \<le> 57)
      \<or> n = 95 \<or> n = 46 \<or> n = 45 \<or> n = 126)"

definition hexdigit :: "nat \<Rightarrow> char" where
  "hexdigit n = ''0123456789ABCDEF'' ! n"

definition quote_byte :: "char \<Rightarrow> string" where
  "quote_byte c =
     (if always_safe c \<or> c = CHR ''/'' then [c]
      else [CHR ''%'', hexdigit ((of_char c :: nat) div 16), hexdigit ((of_char c :: nat) mod 16)])"

definition quote :: "string \<Rightarrow> string" where
  "quote s = concat (map quote_byte s)"

section \<open>The credential manager\<close>

text \<open>
  \<open>_is_token_expired\<close>. The clock is read only when both fields pass the \<open>not\<close> tests
  (a \<open>datetime\<close> is always true, so \<open>not self._token_expiry\<close> is the test for \<open>None\<close>).
  The five minutes are subtracted on the integers: the difference is below
  \<open>datetime.min\<close> only for an expiry within the first five minutes of the year 1.
\<close>

definition u_is_token_expired :: "env \<Rightarrow> state \<Rightarrow> bool \<times> state" where
  "u_is_token_expired e st =
     (case u_token_expiry (self st) of
        None \<Rightarrow> (True, st)
      | Some expiry \<Rightarrow>
          if \<not> truthy (u_access_token (self st)) then (True, st)
          else (case datetime_utcnow e st of
                  (now, st1) \<Rightarrow> (now \<ge> expiry - timedelta_minutes 5, st1)))"

text \<open>
  \<open>_refresh_token\<close>. The two fields are assigned one after the other, and an exception
  leaves the object as it is at that point.
\<close>

definition token_request :: "client \<Rightarrow> post_request" where
  "token_request c =
     \<lparr>post_url = TOKEN_URL (tenant_id c),
      post_data = [''client_id'' \<mapsto> client_id c,
                   ''client_secret'' \<mapsto> client_secret c,
                   ''scope'' \<mapsto> ''https://graph.microsoft.com/.default'',
                   ''grant_type'' \<mapsto> ''client_credentials'']\<rparr>"

definition u_refresh_token :: "env \<Rightarrow> state \<Rightarrow> (error + unit) \<times> state" where
  "u_refresh_token e st =
     (case requests_post e (token_request (self st)) st of
        (Inl err, st1) \<Rightarrow> (Inl err, st1)
      | (Inr resp, st1) \<Rightarrow>
     (case raise_for_status resp of
        Inl err \<Rightarrow> (Inl err, st1)
      | Inr _ \<Rightarrow>
     (case response_json resp of
        Inl err \<Rightarrow> (Inl err, st1)
      | Inr token_data \<Rightarrow>
     (case getitem token_data ''access_token'' of
        Inl err \<Rightarrow> (Inl err, st1)
      | Inr tok \<Rightarrow>
     (let st2 = st1\<lparr>self := (self st1)\<lparr>u_access_token := tok\<rparr>\<rparr> in
      case dict_get token_data ''expires_in'' (JNum 3600) of
        Inl err \<Rightarrow> (Inl err, st2)
      | Inr expires_in \<Rightarrow>
     (case datetime_utcnow e st2 of (now, st3) \<Rightarrow>
     (case timedelta_seconds expires_in of
        Inl err \<Rightarrow> (Inl err, st3)
      | Inr delta \<Rightarrow>
     (case datetime_add now delta of
        Inl err \<Rightarrow> (Inl err, st3)
      | Inr expiry \<Rightarrow>
          (Inr (), st3\<lparr>self := (self st3)\<lparr>u_token_expiry := Some expiry\<rparr>\<rparr>)))))))))"

text \<open>The property \<open>access_token\<close>.\<close>

definition access_token :: "env \<Rightarrow> state \<Rightarrow> (error + json) \<times> state" where
  "access_token e st =
     (case u_is_token_expired e st of
        (True, st1) \<Rightarrow>
          (case u_refresh_token e st1 of
             (Inl err, st2) \<Rightarrow> (Inl err, st2)
           | (Inr _, st2) \<Rightarrow> (Inr (u_access_token (self st2)), st2))
      | (False, st1) \<Rightarrow> (Inr (u_access_token (self st1)), st1))"

text \<open>\<open>_get_headers\<close>\<close>

definition u_get_headers :: "env \<Rightarrow> state \<Rightarrow> (error + (string \<rightharpoonup> string)) \<times> state" where
  "u_get_headers e st =
     (case access_token e st of
        (Inl err, st1) \<Rightarrow> (Inl err, st1)
      | (Inr tok, st1) \<Rightarrow> (Inr [''Authorization'' \<mapsto> ''Bearer '' @ py_str e tok], st1))"

section \<open>The request dispatcher\<close>

text \<open>
  \<open>_make_request(http_method, endpoint, **kwargs)\<close>. The keyword \<open>headers\<close> is popped from
  \<open>kwargs\<close> before the first call, so it is an argument of its own here (\<open>None\<close> when
  the caller gave none, for which the source takes \<open>{}\<close>), and \<open>kwargs\<close> is what is
  left. \<open>headers.update\<close> is \<open>++\<close>: the caller's entries win.
\<close>

definition u_make_request ::
  "env \<Rightarrow> string \<Rightarrow> string \<Rightarrow> (string \<rightharpoonup> string) option \<Rightarrow> (string \<rightharpoonup> json)
     \<Rightarrow> state \<Rightarrow> (error + response) \<times> state" where
  "u_make_request e meth endpoint caller_headers kw st =
     (let url0 = GRAPH_URL @ endpoint in
      case u_get_headers e st of
        (Inl err, st1) \<Rightarrow> (Inl err, st1)
      | (Inr h, st1) \<Rightarrow>
     (let hdrs = h ++ (case caller_headers of None \<Rightarrow> Map.empty | Some c \<Rightarrow> c) in
      case requests_request e \<lparr>http_method = meth, url = url0, headers = hdrs, kwargs = kw\<rparr> st1 of
        (Inl err, st2) \<Rightarrow> (Inl err, st2)
      | (Inr resp, st2) \<Rightarrow>
          if status_code resp = 401 then
            (case u_refresh_token e st2 of
               (Inl err, st3) \<Rightarrow> (Inl err, st3)
             | (Inr _, st3) \<Rightarrow>
            (case u_get_headers e st3 of
               (Inl err, st4) \<Rightarrow> (Inl err, st4)
             | (Inr h2, st4) \<Rightarrow>
            (case requests_request e
                    \<lparr>http_method = meth, url = url0, headers = h2, kwargs = kw\<rparr> st4 of
               (Inl err, st5) \<Rightarrow> (Inl err, st5)
             | (Inr resp2, st5) \<Rightarrow>
            (case raise_for_status resp2 of
               Inl err \<Rightarrow> (Inl err, st5)
             | Inr _ \<Rightarrow> (Inr resp2, st5)))))
          else
            (case raise_for_status resp of
               Inl err \<Rightarrow> (Inl err, st2)
             | Inr _ \<Rightarrow> (Inr resp, st2))))"

section \<open>The file operations\<close>

text \<open>The local variable \<open>endpoint\<close> of each operation, then the operation itself.\<close>

definition list_files_endpoint :: "client \<Rightarrow> string option \<Rightarrow> string" where
  "list_files_endpoint c folder_id =
     (case folder_id of
        None \<Rightarrow> ''/users/'' @ user_email c @ ''/drive/root/children''
      | Some fid \<Rightarrow>
          if fid \<noteq> [] then ''/users/'' @ user_email c @ ''/drive/items/'' @ fid @ ''/children''
          else ''/users/'' @ user_email c @ ''/drive/root/children'')"

definition get_file_metadata_endpoint :: "client \<Rightarrow> string \<Rightarrow> string" where
  "get_file_metadata_endpoint c file_id = ''/users/'' @ user_email c @ ''/drive/items/'' @ file_id"

definition download_file_endpoint :: "client \<Rightarrow> string \<Rightarrow> string" where
  "download_file_endpoint c file_id =
     ''/users/'' @ user_email c @ ''/drive/items/'' @ file_id @ ''/content''"

definition search_files_endpoint :: "client \<Rightarrow> string \<Rightarrow> string" where
  "search_files_endpoint c query =
     ''/users/'' @ user_email c @ ''/drive/root/search(q='' @ [CHR 0x27] @ query @ [CHR 0x27] @ '')''"

definition get_file_by_path_endpoint :: "client \<Rightarrow> string \<Rightarrow> string" where
  "get_file_by_path_endpoint c path = ''/users/'' @ user_email c @ ''/drive/root:'' @ quote path"

text \<open>\<open>response.json().get("value", [])\<close>\<close>

definition value_of_json :: "response \<Rightarrow> error + json" where
  "value_of_json r =
     (case response_json r of
        Inl err \<Rightarrow> Inl err
      | Inr v \<Rightarrow> dict_get v ''value'' (JArr []))"

definition list_files :: "env \<Rightarrow> string option \<Rightarrow> state \<Rightarrow> (error + json) \<times> state" where
  "list_files e folder_id st =
     (case u_make_request e ''GET'' (list_files_endpoint (self st) folder_id) None Map.empty st of
        (Inl err, st1) \<Rightarrow> (Inl err, st1)
      | (Inr resp, st1) \<Rightarrow> (value_of_json resp, st1))"

definition get_file_metadata :: "env \<Rightarrow> string \<Rightarrow> state \<Rightarrow> (error + json) \<times> state" where
  "get_file_metadata e file_id st =
     (case u_make_request e ''GET'' (get_file_metadata_endpoint (self st) file_id) None Map.empty st of
        (Inl err, st1) \<Rightarrow> (Inl err, st1)
      | (Inr resp, st1) \<Rightarrow> (response_json resp, st1))"

definition download_file :: "env \<Rightarrow> string \<Rightarrow> state \<Rightarrow> (error + string) \<times> state" where
  "download_file e file_id st =
     (case u_make_request e ''GET'' (download_file_endpoint (self st) file_id) None
             [''allow_redirects'' \<mapsto> JBool True] st of
        (Inl err, st1) \<Rightarrow> (Inl err, st1)
      | (Inr resp, st1) \<Rightarrow> (Inr (content resp), st1))"

definition search_files :: "env \<Rightarrow> string \<Rightarrow> state \<Rightarrow> (error + json) \<times> state" where
  "search_files e query st =
     (case u_make_request e ''GET'' (search_files_endpoint (self st) query) None Map.empty st of
        (Inl err, st1) \<Rightarrow> (Inl err, st1)
      | (Inr resp, st1) \<Rightarrow> (value_of_json resp, st1))"

definition get_file_by_path :: "env \<Rightarrow> string \<Rightarrow> state \<Rightarrow> (error + json) \<times> state" where
  "get_file_by_path e path st =
     (case u_make_request e ''GET'' (get_file_by_path_endpoint (self st) path) None Map.empty st of
        (Inl err, st1) \<Rightarrow> (Inl err, st1)
      | (Inr resp, st1) \<Rightarrow> (response_json resp, st1))"

section \<open>Notions used by the properties\<close>



text \<open>
  The outcomes of a token request on which \<open>_refresh_token\<close> stops before it assigns
  anything: an exception of the transport, an error status, a body that is not JSON or
  not a JSON object, or an object without \<open>access_token\<close>.
\<close>

definition no_token_in :: "error + response \<Rightarrow> bool" where
  "no_token_in outcome =
     (case outcome of
        Inl err \<Rightarrow> True
      | Inr r \<Rightarrow>
          (400 \<le> status_code r \<and> status_code r < 600) \<or>
          (case json_of r of
             Some (JObj kvs) \<Rightarrow> map_of kvs ''access_token'' = None
           | _ \<Rightarrow> True))"

text \<open>
  The token requests that reading the property \<open>access_token\<close> sends in a state: one
  if \<open>_is_token_expired\<close> says so there, none otherwise.
\<close>

definition proactive_posts :: "env \<Rightarrow> state \<Rightarrow> post_request list" where
  "proactive_posts e st =
     (if fst (u_is_token_expired e st) then [token_request (self st)] else [])"





section \<open>Concrete runs\<close>

text \<open>
  A client that has just been constructed, a clock that advances by one second with
  each reading during its first hour, a simulated identity provider that always gives the same reply, and a
  simulated target API given by its script of status codes.
\<close>

definition example_state :: state where
  "example_state =
     \<lparr>self = init ''tenant'' ''app'' ''secret'' ''user@example.com'',
      clock_reads = 0, post_log = [], request_log = []\<rparr>"

definition token_reply :: "json \<Rightarrow> response" where
  "token_reply body = \<lparr>status_code = 200, content = [], json_of = Some body\<rparr>"

definition api_reply :: "int \<Rightarrow> response" where
  "api_reply code = \<lparr>status_code = code, content = [], json_of = None\<rparr>"

definition example_env :: "response \<Rightarrow> (nat \<Rightarrow> int) \<Rightarrow> env" where
  "example_env granted script =
     \<lparr>utcnow = (\<lambda>k. 1700000000000000 + int (min k 3600) * 1000000),
      post = (\<lambda>k. Inr granted),
      request = (\<lambda>k. Inr (api_reply (script k))),
      repr = (\<lambda>v. [])\<rparr>"

definition hour_token :: json where
  "hour_token = JObj [(''access_token'', JStr ''abc''), (''expires_in'', JNum 3600)]"

definition hour_token_as_text :: json where
  "hour_token_as_text = JObj [(''access_token'', JStr ''abc''), (''expires_in'', JStr ''3600'')]"

definition minute_token :: json where
  "minute_token = JObj [(''access_token'', JStr ''abc''), (''expires_in'', JNum 60)]"

definition bare_token :: json where
  "bare_token = JObj [(''access_token'', JStr ''abc'')]"

definition valid_state :: state where
  "valid_state =
     example_state\<lparr>self := (self example_state)
        \<lparr>u_access_token := JStr ''old'', u_token_expiry := Some 1700003600000000\<rparr>\<rparr>"

section \<open>Effects of the credential manager on the state\<close>

lemma expired_self [simp]: "self (snd (u_is_token_expired e st)) = self st"
  by (simp add: u_is_token_expired_def datetime_utcnow_def split: option.splits)

lemma expired_post_log [simp]: "post_log (snd (u_is_token_expired e st)) = post_log st"
  by (simp add: u_is_token_expired_def datetime_utcnow_def split: option.splits)

lemma expired_request_log [simp]: "request_log (snd (u_is_token_expired e st)) = request_log st"
  by (simp add: u_is_token_expired_def datetime_utcnow_def split: option.splits)

lemma refresh_post_log [simp]:
  "post_log (snd (u_refresh_token e st)) = post_log st @ [token_request (self st)]"
  by (simp add: u_refresh_token_def requests_post_def datetime_utcnow_def Let_def
      split: prod.splits sum.splits)

lemma refresh_request_log [simp]:
  "request_log (snd (u_refresh_token e st)) = request_log st"
  by (simp add: u_refresh_token_def requests_post_def datetime_utcnow_def Let_def
      split: prod.splits sum.splits)

lemma refresh_token_request [simp]:
  "token_request (self (snd (u_refresh_token e st))) = token_request (self st)"
  by (simp add: u_refresh_token_def requests_post_def datetime_utcnow_def Let_def token_request_def
      split: prod.splits sum.splits)

lemma refresh_user_email [simp]:
  "user_email (self (snd (u_refresh_token e st))) = user_email (self st)"
  by (simp add: u_refresh_token_def requests_post_def datetime_utcnow_def Let_def
      split: prod.splits sum.splits)

lemma getitem_Inr:
  "getitem v k = Inr x \<longleftrightarrow> (\<exists>kvs. v = JObj kvs \<and> map_of kvs k = Some x)"
  by (cases v) (auto split: option.splits)




lemma access_token_cases:
  obtains (valid) st1 where "u_is_token_expired e st = (False, st1)"
      "access_token e st = (Inr (u_access_token (self st)), st1)"
    | (refreshed) st1 r st2 where "u_is_token_expired e st = (True, st1)"
      "u_refresh_token e st1 = (r, st2)"
      "access_token e st = (case r of Inl err \<Rightarrow> Inl err | Inr u \<Rightarrow> Inr (u_access_token (self st2)), st2)"
proof -
  obtain b st1 where E: "u_is_token_expired e st = (b, st1)"
    by (cases "u_is_token_expired e st")
  obtain r st2 where R: "u_refresh_token e st1 = (r, st2)"
    by (cases "u_refresh_token e st1")
  have S: "self st1 = self st"
    using expired_self [of e st] E by simp
  show thesis
  proof (cases b)
    case True
    with E R show thesis
      by (intro refreshed [of st1 r st2]) (simp_all add: access_token_def split: sum.splits)
  next
    case False
    with E S show thesis
      by (intro valid [of st1]) (simp_all add: access_token_def)
  qed
qed

lemma access_token_post_log [simp]:
  "post_log (snd (access_token e st)) = post_log st @ proactive_posts e st"
proof (cases rule: access_token_cases [of e st])
  case (valid st1)
  then show ?thesis
    using expired_post_log [of e st] by (simp add: proactive_posts_def)
next
  case (refreshed st1 r st2)
  then show ?thesis
    using expired_post_log [of e st] expired_self [of e st] refresh_post_log [of e st1]
    by (simp add: proactive_posts_def)
qed

lemma access_token_request_log [simp]:
  "request_log (snd (access_token e st)) = request_log st"
proof (cases rule: access_token_cases [of e st])
  case (valid st1)
  then show ?thesis
    using expired_request_log [of e st] by simp
next
  case (refreshed st1 r st2)
  then show ?thesis
    using expired_request_log [of e st] refresh_request_log [of e st1] by simp
qed

lemma access_token_token_request [simp]:
  "token_request (self (snd (access_token e st))) = token_request (self st)"
proof (cases rule: access_token_cases [of e st])
  case (valid st1)
  then show ?thesis
    using expired_self [of e st] by simp
next
  case (refreshed st1 r st2)
  then show ?thesis
    using expired_self [of e st] refresh_token_request [of e st1] by simp
qed


lemma get_headers_eq:
  "u_get_headers e st =
     (case fst (access_token e st) of
        Inl err \<Rightarrow> Inl err
      | Inr tok \<Rightarrow> Inr [''Authorization'' \<mapsto> ''Bearer '' @ py_str e tok],
      snd (access_token e st))"
  by (simp add: u_get_headers_def split: prod.splits sum.splits)






lemma make_request_log:
  "\<exists>new. request_log (snd (u_make_request e m ep ch kw st)) = request_log st @ new \<and>
         length new \<le> 2 \<and>
         (\<forall>r \<in> set new. http_method r = m \<and> url r = GRAPH_URL @ ep \<and> kwargs r = kw)"
  by (simp add: u_make_request_def get_headers_eq requests_request_def Let_def case_prod_beta
      split: sum.splits)


lemma refresh_success:
  assumes "u_refresh_token e st = (Inr (), st')"
  obtains r kvs tok n where
    "post e (length (post_log st)) = Inr r"
    "\<not> (400 \<le> status_code r \<and> status_code r < 600)"
    "json_of r = Some (JObj kvs)"
    "map_of kvs ''access_token'' = Some tok"
    "int_value (case map_of kvs ''expires_in'' of None \<Rightarrow> JNum 3600 | Some v \<Rightarrow> v) = Some n"
    "st' = st\<lparr>post_log := post_log st @ [token_request (self st)],
              clock_reads := Suc (clock_reads st),
              self := (self st)\<lparr>u_access_token := tok,
                u_token_expiry := Some (utcnow e (clock_reads st) + n * 1000000)\<rparr>\<rparr>"
  using assms
  by (auto simp: u_refresh_token_def requests_post_def datetime_utcnow_def Let_def
      response_json_def timedelta_seconds_def datetime_add_def raise_for_status_def getitem_Inr
      split: prod.splits sum.splits option.splits if_splits)

lemmas run_defs = u_refresh_token_def requests_post_def datetime_utcnow_def
  u_is_token_expired_def access_token_def u_get_headers_def u_make_request_def
  requests_request_def raise_for_status_def response_json_def timedelta_seconds_def
  timedelta_minutes_def datetime_add_def datetime_min_def datetime_max_def token_request_def
  TOKEN_URL_def init_def Let_def

lemmas example_defs = example_state_def token_reply_def api_reply_def example_env_def
  hour_token_def hour_token_as_text_def minute_token_def bare_token_def valid_state_def








section \<open>Properties of the credential manager\<close>



text \<open>
  C7. After a refresh that returns normally, the stored expiry is the time read from the
  clock during the refresh plus the number of seconds given by \<open>expires_in\<close> in the
  body of the identity provider's response, and plus 3600 seconds when the body has no
  \<open>expires_in\<close>.
\<close>

theorem refresh_expiry:
  assumes ok: "u_refresh_token e st = (Inr (), st')"
  shows "\<exists>r kvs. post e (length (post_log st)) = Inr r \<and> json_of r = Some (JObj kvs) \<and>
     (case map_of kvs ''expires_in'' of
        None \<Rightarrow> u_token_expiry (self st') = Some (utcnow e (clock_reads st) + 3600 * 1000000)
      | Some v \<Rightarrow> \<exists>n. int_value v = Some n \<and>
          u_token_expiry (self st') = Some (utcnow e (clock_reads st) + n * 1000000))"
proof -
  from ok obtain r kvs tok n where
    p: "post e (length (post_log st)) = Inr r" and j: "json_of r = Some (JObj kvs)"
    and n: "int_value (case map_of kvs ''expires_in'' of None \<Rightarrow> JNum 3600 | Some v \<Rightarrow> v) = Some n"
    and s: "st' = st\<lparr>post_log := post_log st @ [token_request (self st)],
              clock_reads := Suc (clock_reads st),
              self := (self st)\<lparr>u_access_token := tok,
                u_token_expiry := Some (utcnow e (clock_reads st) + n * 1000000)\<rparr>\<rparr>"
    by (rule refresh_success)
  from n s have "case map_of kvs ''expires_in'' of
        None \<Rightarrow> u_token_expiry (self st') = Some (utcnow e (clock_reads st) + 3600 * 1000000)
      | Some v \<Rightarrow> \<exists>n. int_value v = Some n \<and>
          u_token_expiry (self st') = Some (utcnow e (clock_reads st) + n * 1000000)"
    by (cases "map_of kvs ''expires_in''") auto
  with p j show ?thesis by blast
qed

theorem refresh_expiry_witness:
  "u_refresh_token (example_env (token_reply bare_token) (\<lambda>k. 200)) example_state =
     (Inr (), example_state\<lparr>post_log := [token_request (self example_state)], clock_reads := 1,
        self := (self example_state)\<lparr>u_access_token := JStr ''abc'',
          u_token_expiry := Some (1700000000000000 + 3600 * 1000000)\<rparr>\<rparr>) \<and>
   u_token_expiry (self (snd (u_refresh_token (example_env (token_reply hour_token) (\<lambda>k. 200))
       valid_state))) = Some (1700000000000000 + 3600 * 1000000)"
proof -
  let ?e = "example_env (token_reply bare_token) (\<lambda>k. 200)"
  let ?st' = "example_state\<lparr>post_log := [token_request (self example_state)], clock_reads := 1,
        self := (self example_state)\<lparr>u_access_token := JStr ''abc'',
          u_token_expiry := Some (1700000000000000 + 3600 * 1000000)\<rparr>\<rparr>"
  let ?f = "example_env (token_reply hour_token) (\<lambda>k. 200)"
  have bare: "u_refresh_token ?e example_state = (Inr (), ?st')"
    by (simp add: run_defs example_defs)
  have hour: "u_refresh_token ?f valid_state = (Inr (), snd (u_refresh_token ?f valid_state))"
    by (simp add: run_defs example_defs)
  have "u_token_expiry (self (snd (u_refresh_token ?f valid_state)))
      = Some (1700000000000000 + 3600 * 1000000)"
    using refresh_expiry [OF hour] by (auto simp: example_defs)
  with bare refresh_expiry [OF bare] show ?thesis
    by simp
qed

text \<open>
  C8, as stated, fails: the token is assigned before the expiry is computed. From a
  new client, a response whose \<open>expires_in\<close> is the text \<open>"3600"\<close> makes the refresh raise
  \<open>TypeError\<close> after the token has been stored, so a token is held without an expiry
  and the failed refresh has changed the stored state.
\<close>

theorem failed_refresh_changes_token:
  "fst (u_refresh_token (example_env (token_reply hour_token_as_text) (\<lambda>k. 200)) example_state)
     = Inl TypeError \<and>
   u_access_token (self example_state) = JNull \<and>
   u_access_token (self (snd (u_refresh_token
       (example_env (token_reply hour_token_as_text) (\<lambda>k. 200)) example_state))) = JStr ''abc'' \<and>
   u_token_expiry (self (snd (u_refresh_token
       (example_env (token_reply hour_token_as_text) (\<lambda>k. 200)) example_state))) = None"
  by (simp add: run_defs example_defs)

text \<open>
  C8, amended. A new client holds neither a token nor an expiry. A refresh whose token
  request ends in an exception of the transport, in an error status, or in a body that
  is not a JSON object with an \<open>access_token\<close>, fails and leaves the client object exactly
  as it was. A refresh that returns normally has replaced both fields together: the
  token by the \<open>access_token\<close> of the body, the expiry by a timestamp.
\<close>

theorem refresh_stores_both_or_nothing:
  "u_access_token (init tenant cid secret email) = JNull \<and>
   u_token_expiry (init tenant cid secret email) = None \<and>
   (no_token_in (post e (length (post_log st))) \<longrightarrow>
      (\<exists>err. fst (u_refresh_token e st) = Inl err) \<and>
      self (snd (u_refresh_token e st)) = self st) \<and>
   (fst (u_refresh_token e st) = Inr () \<longrightarrow>
      (\<exists>r kvs tok x. post e (length (post_log st)) = Inr r \<and> json_of r = Some (JObj kvs) \<and>
         map_of kvs ''access_token'' = Some tok \<and>
         self (snd (u_refresh_token e st)) =
           (self st)\<lparr>u_access_token := tok, u_token_expiry := Some x\<rparr>))"
proof (intro conjI impI)
  show "u_access_token (init tenant cid secret email) = JNull"
    by (simp add: init_def)
  show "u_token_expiry (init tenant cid secret email) = None"
    by (simp add: init_def)
next
  assume "no_token_in (post e (length (post_log st)))"
  then show "\<exists>err. fst (u_refresh_token e st) = Inl err"
    by (cases "post e (length (post_log st))")
      (auto simp: no_token_in_def u_refresh_token_def requests_post_def raise_for_status_def
        response_json_def split: option.splits json.splits)
next
  assume "no_token_in (post e (length (post_log st)))"
  then show "self (snd (u_refresh_token e st)) = self st"
    by (cases "post e (length (post_log st))")
      (auto simp: no_token_in_def u_refresh_token_def requests_post_def raise_for_status_def
        response_json_def split: option.splits json.splits)
next
  assume "fst (u_refresh_token e st) = Inr ()"
  then have "u_refresh_token e st = (Inr (), snd (u_refresh_token e st))"
    by (simp add: prod_eq_iff)
  then show "\<exists>r kvs tok x. post e (length (post_log st)) = Inr r \<and> json_of r = Some (JObj kvs) \<and>
         map_of kvs ''access_token'' = Some tok \<and>
         self (snd (u_refresh_token e st)) =
           (self st)\<lparr>u_access_token := tok, u_token_expiry := Some x\<rparr>"
    by (rule refresh_success) auto
qed

theorem refresh_stores_both_or_nothing_witness:
  "fst (u_refresh_token (example_env (api_reply 500) (\<lambda>k. 200)) valid_state)
     = Inl (HTTPError (api_reply 500)) \<and>
   self (snd (u_refresh_token (example_env (api_reply 500) (\<lambda>k. 200)) valid_state))
     = self valid_state \<and>
   self (snd (u_refresh_token (example_env (token_reply hour_token) (\<lambda>k. 200)) example_state))
     = (self example_state)\<lparr>u_access_token := JStr ''abc'',
          u_token_expiry := Some 1700003600000000\<rparr>"
proof -
  let ?e = "example_env (api_reply 500) (\<lambda>k. 200)"
  let ?f = "example_env (token_reply hour_token) (\<lambda>k. 200)"
  have refused: "no_token_in (post ?e (length (post_log valid_state)))"
    by (simp add: no_token_in_def example_defs)
  have granted: "fst (u_refresh_token ?f example_state) = Inr ()"
    by (simp add: run_defs example_defs)
  have err: "fst (u_refresh_token ?e valid_state) = Inl (HTTPError (api_reply 500))"
    by (simp add: run_defs example_defs)
  have token: "u_access_token (self (snd (u_refresh_token ?f example_state))) = JStr ''abc''"
    by (simp add: run_defs example_defs)
  have new: "u_token_expiry (self (snd (u_refresh_token ?f example_state)))
      = Some 1700003600000000"
    by (simp add: run_defs example_defs)
  from refresh_stores_both_or_nothing [where e = ?e and st = valid_state] refused
  have same: "self (snd (u_refresh_token ?e valid_state)) = self valid_state"
    by blast
  from refresh_stores_both_or_nothing [where e = ?f and st = example_state] granted
  have "\<exists>r kvs tok x. post ?f (length (post_log example_state)) = Inr r \<and>
      json_of r = Some (JObj kvs) \<and> map_of kvs ''access_token'' = Some tok \<and>
      self (snd (u_refresh_token ?f example_state))
        = (self example_state)\<lparr>u_access_token := tok, u_token_expiry := Some x\<rparr>"
    by blast
  then obtain tok x where both: "self (snd (u_refresh_token ?f example_state))
      = (self example_state)\<lparr>u_access_token := tok, u_token_expiry := Some x\<rparr>"
    by blast
  from both have "u_access_token (self (snd (u_refresh_token ?f example_state))) = tok"
    and "u_token_expiry (self (snd (u_refresh_token ?f example_state))) = Some x"
    by simp_all
  with token new have "tok = JStr ''abc''" and "x = 1700003600000000"
    by simp_all
  with both have "self (snd (u_refresh_token ?f example_state))
      = (self example_state)\<lparr>u_access_token := JStr ''abc'',
          u_token_expiry := Some 1700003600000000\<rparr>"
    by simp
  with err same show ?thesis by simp
qed

section \<open>Properties of the request dispatcher\<close>

text \<open>
  C1 says that the request reissued after a 401 is the original one but for the
  refreshed \<open>Authorization\<close> header, so that every header given by the caller is sent
  again. The first attempt does merge the caller's headers; the retry is built from
  \<open>_get_headers()\<close> alone. In the run below the caller gives an \<open>Accept\<close> header and the
  first answer is 401: the first request carries the header and the second does not.
\<close>

theorem retry_drops_caller_headers:
  "map (\<lambda>r. headers r ''Accept'')
     (request_log (snd (u_make_request
        (example_env (token_reply hour_token) (\<lambda>k. if k = 0 then 401 else 200))
        ''GET'' ''/me'' (Some [''Accept'' \<mapsto> ''application/json'']) Map.empty valid_state)))
   = [Some ''application/json'', None]"
  by (simp add: run_defs example_defs)










section \<open>Properties of the file operations\<close>

text \<open>
  C4 says that every file operation inserts the caller's path or query URL-encoded.
  \<open>get_file_by_path\<close> does so with \<open>quote\<close>, and the path of the example comes out with
  its spaces as \<open>%20\<close>; \<open>search_files\<close> inserts its query as it is, here with a space
  and a \<open>#\<close>.
\<close>

theorem search_files_inserts_raw_query:
  "search_files_endpoint (self example_state) ''budget #2''
     = ''/users/user@example.com/drive/root/search(q='' @ [CHR 0x27] @ ''budget #2'' @ [CHR 0x27] @ '')'' \<and>
   get_file_by_path_endpoint (self example_state) ''/Documents/report with spaces.pdf''
     = ''/users/user@example.com/drive/root:/Documents/report%20with%20spaces.pdf''"
  by (simp add: search_files_endpoint_def get_file_by_path_endpoint_def example_state_def init_def
      quote_def quote_byte_def always_safe_def hexdigit_def)

text \<open>
  C9. \<open>list_files()\<close> without an argument builds the endpoint
  \<open>/users/{account}/drive/root/children\<close>, and \<open>list_files(folder_id=X)\<close> with a
  non-empty \<open>X\<close> builds \<open>/users/{account}/drive/items/X/children\<close>; every request that
  the call sends goes to the base URL followed by that endpoint.
\<close>

theorem list_files_endpoints:
  "list_files_endpoint c None = ''/users/'' @ user_email c @ ''/drive/root/children'' \<and>
   (X \<noteq> [] \<longrightarrow>
      list_files_endpoint c (Some X) = ''/users/'' @ user_email c @ ''/drive/items/'' @ X @ ''/children'') \<and>
   (\<exists>new. request_log (snd (list_files e fid st)) = request_log st @ new \<and>
      (\<forall>r \<in> set new. url r = GRAPH_URL @ list_files_endpoint (self st) fid))"
proof -
  obtain new where
    "request_log (snd (u_make_request e ''GET'' (list_files_endpoint (self st) fid) None Map.empty st))
       = request_log st @ new"
    "\<forall>r \<in> set new. url r = GRAPH_URL @ list_files_endpoint (self st) fid"
    using make_request_log [of e "''GET''" "list_files_endpoint (self st) fid" None Map.empty st]
    by auto
  then have "\<exists>new. request_log (snd (list_files e fid st)) = request_log st @ new \<and>
      (\<forall>r \<in> set new. url r = GRAPH_URL @ list_files_endpoint (self st) fid)"
    by (auto simp: list_files_def split: prod.splits sum.splits)
  then show ?thesis
    by (simp add: list_files_endpoint_def)
qed

theorem list_files_endpoints_witness:
  "list_files_endpoint (self example_state) (Some ''X'')
     = ''/users/user@example.com/drive/items/X/children'' \<and>
   map url (request_log (snd (list_files (example_env (token_reply hour_token) (\<lambda>k. 200)) (Some ''X'')
       example_state)))
     = [''https://graph.microsoft.com/v1.0/users/user@example.com/drive/items/X/children'']"
proof -
  let ?log = "request_log (snd (list_files (example_env (token_reply hour_token) (\<lambda>k. 200)) (Some ''X'')
      example_state))"
  have ne: "''X'' \<noteq> []"
    by simp
  have sent: "length ?log = 1"
    by (simp add: list_files_def list_files_endpoint_def run_defs example_defs value_of_json_def)
  from list_files_endpoints [of "self example_state" "''X''"
      "example_env (token_reply hour_token) (\<lambda>k. 200)" "Some ''X''" example_state] ne
  have ep: "list_files_endpoint (self example_state) (Some ''X'')
      = ''/users/'' @ user_email (self example_state) @ ''/drive/items/'' @ ''X'' @ ''/children''"
    and urls: "\<forall>r \<in> set ?log.
      url r = GRAPH_URL @ list_files_endpoint (self example_state) (Some ''X'')"
    by (auto simp: example_state_def)
  from sent obtain r where "?log = [r]"
    by (auto simp: length_Suc_conv)
  with urls ep show ?thesis
    by (simp add: example_state_def init_def GRAPH_URL_def)
qed

text \<open>
  C10. \<open>list_files(folder_id="")\<close> builds the endpoint of the root folder: the branch
  is chosen by the truth value of the argument, and the empty string is false.
\<close>

theorem list_files_empty_folder_id:
  "list_files_endpoint c (Some []) = ''/users/'' @ user_email c @ ''/drive/root/children'' \<and>
   list_files_endpoint c (Some []) = list_files_endpoint c None"
  by (simp add: list_files_endpoint_def)

end
